theory Spec2Isabelle
  imports Complex_Main
begin

section \<open>Data model\<close>

text \<open>
  The repository holds one Express/Mongoose server in several copies.  The copy
  \<^verbatim>\<open>backend/server.js\<close> is the fullest one; a leaner copy (first file of
  \<^verbatim>\<open>src/unnamed/part_000\<close>) has a smaller schema and simpler handlers, and a third copy
  (second file of \<^verbatim>\<open>part_000\<close>) answers with other status codes.  Handlers of
  \<^verbatim>\<open>backend/server.js\<close> keep the route's name; handlers of the other copies carry the
  suffix \<open>_variant\<close>.

  Instants (\<^verbatim>\<open>Date\<close>) are milliseconds since the epoch, an \<open>int\<close>; \<^verbatim>\<open>new Date()\<close>
  is the parameter \<open>now\<close> of every handler that reads the clock.  A JavaScript
  number is a \<open>real\<close>: a JSON body cannot carry NaN and the schema's cast refuses it, so
  the order on the finite numbers that reach a handler is the order of the reals.
\<close>

text \<open>
  What a \<^verbatim>\<open>Number\<close> path of a stored document holds: nothing (the path is unset and
  reads as \<^verbatim>\<open>undefined\<close>), \<^verbatim>\<open>null\<close>, or a number.  None of the schemas of
  \<^verbatim>\<open>backend/server.js\<close> marks such a path \<^verbatim>\<open>required\<close>.
\<close>

datatype number_path = NoValue | NullValue | Number real

text \<open>
  \<^verbatim>\<open>auctionItemSchema\<close>.  The leaner copy declares the first six paths only;
  \<^verbatim>\<open>backend/server.js\<close> adds \<^verbatim>\<open>startingBid\<close> and \<^verbatim>\<open>createdAt\<close>.
\<close>

record variantAuctionItem =
  itemName :: string
  description :: string
  currentBid :: number_path
  highestBidder :: string
  closingTime :: int
  isClosed :: bool

record auctionItem = variantAuctionItem +
  startingBid :: number_path
  createdAt :: int

text \<open>\<^verbatim>\<open>userSchema\<close>; \<open>uid\<close> is the document's \<^verbatim>\<open>_id\<close>.\<close>

record user =
  uid :: nat
  username :: string
  password :: string

text \<open>
  A collection maps \<^verbatim>\<open>_id\<close> to document.  \<open>saves\<close> counts the calls of
  \<^verbatim>\<open>save()\<close> that reached the database, so that the number of writes of a handler
  can be stated.
\<close>

record 'd collection =
  docs :: "nat \<rightharpoonup> 'd"
  saves :: nat

definition findById :: "'d collection \<Rightarrow> nat \<Rightarrow> 'd option" where
  "findById s i = docs s i"

definition save :: "nat \<Rightarrow> 'd \<Rightarrow> 'd collection \<Rightarrow> 'd collection" where
  "save i d s = s\<lparr>docs := (docs s)(i \<mapsto> d), saves := saves s + 1\<rparr>"

text \<open>
  \<^verbatim>\<open>save()\<close> of a document made by \<^verbatim>\<open>new Model(...)\<close>: an insert, which the
  database refuses when the \<^verbatim>\<open>_id\<close> is taken.
\<close>

definition insert_doc :: "nat \<Rightarrow> 'd \<Rightarrow> 'd collection \<Rightarrow> 'd collection option" where
  "insert_doc i d s = (if docs s i = None then Some (save i d s) else None)"

text \<open>
  A field of a JSON request body.  \<open>Undefined\<close> is a key the body does not have.
  Arrays and objects are left out.
\<close>

datatype jsval = Undefined | Null | Bool bool | Num real | Str string

text \<open>JavaScript's \<^verbatim>\<open>!v\<close> is \<open>\<not> truthy v\<close>; \<^verbatim>\<open>v == null\<close> is \<open>nullish v\<close>.\<close>

fun truthy :: "jsval \<Rightarrow> bool" where
  "truthy Undefined = False"
| "truthy Null = False"
| "truthy (Bool b) = b"
| "truthy (Num n) = (n \<noteq> 0)"
| "truthy (Str s) = (s \<noteq> [])"

fun nullish :: "jsval \<Rightarrow> bool" where
  "nullish Undefined = True"
| "nullish Null = True"
| "nullish _ = False"

text \<open>
  The JSON a handler answers with, one constructor per shape of object literal in the
  source, and the response: status code and body.
\<close>

datatype 'd json =
    Message string
  | MessageWinner string string
  | MessageCurrentBid string number_path
  | MessageItemYourBid string 'd jsval
  | MessageItem string 'd
  | MessageAuction string 'd
  | Document 'd
  | MessageTokenUser string string nat string
  | MessageToken string string

record 'd response =
  status :: nat
  body :: "'d json"

section \<open>Library behaviour the handlers rest on\<close>

text \<open>
  Mongoose's schema casts are library code: they are parameters of the model.  \<open>None\<close>
  is a value the schema type refuses (a \<^verbatim>\<open>CastError\<close>); the document then fails
  validation and \<^verbatim>\<open>save()\<close> rejects.  Of \<open>castNumber\<close> only the value on a non-empty
  string is consulted: there Mongoose applies JavaScript's \<^verbatim>\<open>Number(s)\<close> and refuses
  NaN.
\<close>

record casts =
  castString :: "jsval \<Rightarrow> string option"
  castNumber :: "jsval \<Rightarrow> real option"
  castDate :: "jsval \<Rightarrow> int option"

text \<open>
  The cast of a \<^verbatim>\<open>Number\<close> path, when a document is built and when a path is
  assigned: \<^verbatim>\<open>undefined\<close> unsets the path, \<^verbatim>\<open>null\<close> is kept, the empty string
  becomes \<^verbatim>\<open>null\<close>, a number is kept, a boolean becomes 0 or 1, and any other string
  is converted or refused.
\<close>

fun castNumberPath :: "casts \<Rightarrow> jsval \<Rightarrow> number_path option" where
  "castNumberPath c Undefined = Some NoValue"
| "castNumberPath c Null = Some NullValue"
| "castNumberPath c (Bool b) = Some (Number (if b then 1 else 0))"
| "castNumberPath c (Num n) = Some (Number n)"
| "castNumberPath c (Str s) =
     (if s = [] then Some NullValue
      else (case castNumber c (Str s) of None \<Rightarrow> None | Some n \<Rightarrow> Some (Number n)))"

text \<open>
  JavaScript's \<^verbatim>\<open>bid <= item.currentBid\<close>, whose right operand is a stored
  \<^verbatim>\<open>Number\<close> path and so never a string: both sides are converted to numbers
  (\<^verbatim>\<open>undefined\<close> to NaN, \<^verbatim>\<open>null\<close> and the empty string to 0, a boolean to 0 or 1,
  any other string by \<^verbatim>\<open>Number(s)\<close>, the conversion that \<open>castNumber\<close> stands for
  on a string), and a comparison with NaN is false.  \<open>None\<close> is NaN.
\<close>

fun toNumber :: "casts \<Rightarrow> jsval \<Rightarrow> real option" where
  "toNumber c Undefined = None"
| "toNumber c Null = Some 0"
| "toNumber c (Bool b) = Some (if b then 1 else 0)"
| "toNumber c (Num n) = Some n"
| "toNumber c (Str s) = (if s = [] then Some 0 else castNumber c (Str s))"

fun numberOf :: "number_path \<Rightarrow> real option" where
  "numberOf NoValue = None"
| "numberOf NullValue = Some 0"
| "numberOf (Number n) = Some n"

definition js_le :: "casts \<Rightarrow> jsval \<Rightarrow> number_path \<Rightarrow> bool" where
  "js_le c bid cur =
     (case toNumber c bid of
        None \<Rightarrow> False
      | Some x \<Rightarrow> (case numberOf cur of None \<Rightarrow> False | Some y \<Rightarrow> x \<le> y))"

section \<open>The auction routes of backend/server.js\<close>

text \<open>
  \<^verbatim>\<open>GET /auctions/:id\<close> (server.js 218-236).
\<close>

definition get_auction ::
  "auctionItem collection \<Rightarrow> nat \<Rightarrow> int \<Rightarrow> auctionItem response \<times> auctionItem collection" where
  "get_auction s i now =
     (case findById s i of
        None \<Rightarrow> (\<lparr>status = 404, body = Message ''Auction not found''\<rparr>, s)
      | Some item \<Rightarrow>
          if \<not> isClosed item \<and> now > closingTime item
          then (\<lparr>status = 200, body = Document (item\<lparr>isClosed := True\<rparr>)\<rparr>,
                save i (item\<lparr>isClosed := True\<rparr>) s)
          else (\<lparr>status = 200, body = Document item\<rparr>, s))"

text \<open>
  \<^verbatim>\<open>POST /bid/:id\<close> (server.js 239-284), behind \<^verbatim>\<open>authenticate\<close>: \<open>bidder\<close> is
  \<^verbatim>\<open>req.user.username\<close>.  The body's \<^verbatim>\<open>bid\<close> is whatever the body carries; the
  handler does not check it.  \<^verbatim>\<open>item.currentBid = bid\<close> casts the value as the schema
  does; a value the cast refuses makes \<^verbatim>\<open>save()\<close> reject, nothing is written and
  the \<^verbatim>\<open>catch\<close> block answers 500.
\<close>

definition post_bid ::
  "casts \<Rightarrow> auctionItem collection \<Rightarrow> nat \<Rightarrow> string \<Rightarrow> jsval \<Rightarrow> int
     \<Rightarrow> auctionItem response \<times> auctionItem collection" where
  "post_bid c s i bidder bid now =
     (case findById s i of
        None \<Rightarrow> (\<lparr>status = 404, body = Message ''Auction item not found''\<rparr>, s)
      | Some item \<Rightarrow>
          if isClosed item
          then (\<lparr>status = 400,
                 body = MessageWinner ''Auction is closed'' (highestBidder item)\<rparr>, s)
          else if now > closingTime item
          then (\<lparr>status = 400,
                 body = MessageWinner ''Auction closed'' (highestBidder item)\<rparr>,
                save i (item\<lparr>isClosed := True\<rparr>) s)
          else if js_le c bid (currentBid item)
          then (\<lparr>status = 400,
                 body = MessageCurrentBid ''Bid must be higher than current bid''
                          (currentBid item)\<rparr>, s)
          else
            (case castNumberPath c bid of
               None \<Rightarrow> (\<lparr>status = 500, body = Message ''Internal Server Error''\<rparr>, s)
             | Some v \<Rightarrow>
                 (\<lparr>status = 200,
                   body = MessageItemYourBid ''Bid successful''
                            (item\<lparr>currentBid := v, highestBidder := bidder\<rparr>) bid\<rparr>,
                  save i (item\<lparr>currentBid := v, highestBidder := bidder\<rparr>) s)))"

text \<open>
  \<^verbatim>\<open>new AuctionItem({ itemName, description, currentBid: startingBid,
  startingBid: startingBid, highestBidder: '', closingTime })\<close> (server.js 176-183) with
  the schema's defaults \<^verbatim>\<open>isClosed: false\<close> and \<^verbatim>\<open>createdAt: Date.now\<close>.
\<close>

definition new_AuctionItem ::
  "casts \<Rightarrow> int \<Rightarrow> jsval \<Rightarrow> jsval \<Rightarrow> jsval \<Rightarrow> jsval \<Rightarrow> auctionItem option" where
  "new_AuctionItem c now nameV descV bidV closeV =
     (case castString c nameV of None \<Rightarrow> None | Some n \<Rightarrow>
       (case castString c descV of None \<Rightarrow> None | Some d \<Rightarrow>
         (case castNumberPath c bidV of None \<Rightarrow> None | Some b \<Rightarrow>
           (case castDate c closeV of None \<Rightarrow> None | Some t \<Rightarrow>
              Some \<lparr>itemName = n, description = d, currentBid = b, highestBidder = [],
                    closingTime = t, isClosed = False, startingBid = b,
                    createdAt = now\<rparr>))))"

text \<open>
  \<^verbatim>\<open>POST /auction\<close> (server.js 168-195), behind \<^verbatim>\<open>authenticate\<close>.  \<open>newId\<close> is the
  \<^verbatim>\<open>_id\<close> the driver generates for the new document.  Every failure of
  \<^verbatim>\<open>save()\<close> lands in the \<^verbatim>\<open>catch\<close> block.
\<close>

definition post_auction ::
  "casts \<Rightarrow> auctionItem collection \<Rightarrow> nat \<Rightarrow> int \<Rightarrow> jsval \<Rightarrow> jsval \<Rightarrow> jsval \<Rightarrow> jsval
     \<Rightarrow> auctionItem response \<times> auctionItem collection" where
  "post_auction c s newId now nameV descV startingBidV closeV =
     (if \<not> truthy nameV \<or> \<not> truthy descV \<or> \<not> truthy startingBidV \<or> \<not> truthy closeV
      then (\<lparr>status = 400, body = Message ''All fields are required''\<rparr>, s)
      else
        (case new_AuctionItem c now nameV descV startingBidV closeV of
           None \<Rightarrow> (\<lparr>status = 500, body = Message ''Internal Server Error''\<rparr>, s)
         | Some newItem \<Rightarrow>
             (case insert_doc newId newItem s of
                None \<Rightarrow> (\<lparr>status = 500, body = Message ''Internal Server Error''\<rparr>, s)
              | Some s' \<Rightarrow>
                  (\<lparr>status = 201, body = MessageItem ''Auction item created'' newItem\<rparr>,
                   s'))))"

text \<open>
  The engine's operations as data, and a run of them against the collection: what the
  auction collection looks like after a sequence of requests.
\<close>

datatype operation =
    View nat int
  | PlaceBid nat string jsval int
  | CreateAuction nat int jsval jsval jsval jsval

fun step :: "casts \<Rightarrow> auctionItem collection \<Rightarrow> operation \<Rightarrow> auctionItem collection" where
  "step c s (View i now) = snd (get_auction s i now)"
| "step c s (PlaceBid i bidder bid now) = snd (post_bid c s i bidder bid now)"
| "step c s (CreateAuction newId now n d b t) = snd (post_auction c s newId now n d b t)"

definition run :: "casts \<Rightarrow> auctionItem collection \<Rightarrow> operation list \<Rightarrow> auctionItem collection" where
  "run c s ops = foldl (step c) s ops"

section \<open>The auction routes of the leaner copy\<close>

text \<open>
  \<^verbatim>\<open>new AuctionItem({ itemName, description, currentBid: startingBid, closingTime })\<close>
  (part_000 135-140) with the defaults \<^verbatim>\<open>highestBidder: ''\<close> and
  \<^verbatim>\<open>isClosed: false\<close>.  This schema marks the four given paths
  \<^verbatim>\<open>required: true\<close>: validation refuses an empty string on a string path, and
  \<^verbatim>\<open>null\<close> or nothing on the \<^verbatim>\<open>Number\<close> path.
\<close>

definition new_AuctionItem_variant ::
  "casts \<Rightarrow> jsval \<Rightarrow> jsval \<Rightarrow> jsval \<Rightarrow> jsval \<Rightarrow> variantAuctionItem option" where
  "new_AuctionItem_variant c nameV descV bidV closeV =
     (case castString c nameV of None \<Rightarrow> None | Some n \<Rightarrow>
       (case castString c descV of None \<Rightarrow> None | Some d \<Rightarrow>
         (case castNumberPath c bidV of None \<Rightarrow> None | Some b \<Rightarrow>
           (case castDate c closeV of None \<Rightarrow> None | Some t \<Rightarrow>
              if n = [] \<or> d = [] \<or> b = NoValue \<or> b = NullValue then None
              else Some \<lparr>itemName = n, description = d, currentBid = b,
                         highestBidder = [], closingTime = t, isClosed = False\<rparr>))))"

text \<open>
  \<^verbatim>\<open>POST /auction\<close> (part_000 128-148): \<^verbatim>\<open>startingBid == null\<close> replaces
  \<^verbatim>\<open>!startingBid\<close>.  The answer carries the document under the key
  \<^verbatim>\<open>auction\<close>.
\<close>

definition post_auction_variant ::
  "casts \<Rightarrow> variantAuctionItem collection \<Rightarrow> nat \<Rightarrow> jsval \<Rightarrow> jsval \<Rightarrow> jsval \<Rightarrow> jsval
     \<Rightarrow> variantAuctionItem response \<times> variantAuctionItem collection" where
  "post_auction_variant c s newId nameV descV startingBidV closeV =
     (if \<not> truthy nameV \<or> \<not> truthy descV \<or> nullish startingBidV \<or> \<not> truthy closeV
      then (\<lparr>status = 400, body = Message ''All fields required''\<rparr>, s)
      else
        (case new_AuctionItem_variant c nameV descV startingBidV closeV of
           None \<Rightarrow> (\<lparr>status = 500, body = Message ''Server error''\<rparr>, s)
         | Some auction \<Rightarrow>
             (case insert_doc newId auction s of
                None \<Rightarrow> (\<lparr>status = 500, body = Message ''Server error''\<rparr>, s)
              | Some s' \<Rightarrow>
                  (\<lparr>status = 201, body = MessageAuction ''Auction created'' auction\<rparr>,
                   s'))))"

text \<open>\<^verbatim>\<open>GET /auctions/:id\<close> (part_000 162-173): the document goes out as it is stored.\<close>

definition get_auction_variant ::
  "variantAuctionItem collection \<Rightarrow> nat
     \<Rightarrow> variantAuctionItem response \<times> variantAuctionItem collection" where
  "get_auction_variant s i =
     (case findById s i of
        None \<Rightarrow> (\<lparr>status = 404, body = Message ''Auction not found''\<rparr>, s)
      | Some auction \<Rightarrow> (\<lparr>status = 200, body = Document auction\<rparr>, s))"

section \<open>The account routes\<close>

text \<open>
  The users collection in insertion order.  \<^verbatim>\<open>User.findOne({ username })\<close> is the
  first document with that name.  An insert fails validation on an empty username or
  password (the schema's \<^verbatim>\<open>required: true\<close>), and fails in the database on a taken
  \<^verbatim>\<open>_id\<close> and, by the schema's \<^verbatim>\<open>unique: true\<close>, on a taken username.
\<close>

definition findOne :: "user list \<Rightarrow> string \<Rightarrow> user option" where
  "findOne us name = find (\<lambda>u. username u = name) us"

definition insert_user :: "user \<Rightarrow> user list \<Rightarrow> user list option" where
  "insert_user u us =
     (if username u = [] \<or> password u = [] then None
      else if list_ex (\<lambda>x. uid x = uid u \<or> username x = username u) us then None
      else Some (us @ [u]))"

text \<open>\<^verbatim>\<open>!v\<close> for a body field that is a JSON string when it is there.\<close>

fun falsy :: "string option \<Rightarrow> bool" where
  "falsy None = True"
| "falsy (Some s) = (s = [])"

text \<open>
  \<^verbatim>\<open>POST /signup\<close> (server.js 101-128).  bcrypt is library code: \<open>hash\<close> is
  \<^verbatim>\<open>bcrypt.hash\<close> and \<open>salt\<close> the result of \<^verbatim>\<open>bcrypt.genSalt(10)\<close>.  The body's
  \<^verbatim>\<open>username\<close> and \<^verbatim>\<open>password\<close> are taken to be JSON strings when present; a
  field is read (\<open>the\<close>) only past the check that it is there.
\<close>

definition post_signup ::
  "(string \<Rightarrow> string \<Rightarrow> string) \<Rightarrow> user list \<Rightarrow> nat \<Rightarrow> string \<Rightarrow> string option \<Rightarrow> string option
     \<Rightarrow> unit response \<times> user list" where
  "post_signup hash us newId salt usernameV passwordV =
     (if falsy usernameV \<or> falsy passwordV
      then (\<lparr>status = 400, body = Message ''Username and password required''\<rparr>, us)
      else
        (case findOne us (the usernameV) of
           Some existingUser \<Rightarrow>
             (\<lparr>status = 400, body = Message ''Username already exists''\<rparr>, us)
         | None \<Rightarrow>
             (case insert_user \<lparr>uid = newId, username = the usernameV,
                                password = hash (the passwordV) salt\<rparr> us of
                None \<Rightarrow> (\<lparr>status = 500, body = Message ''Internal Server Error''\<rparr>, us)
              | Some us' \<Rightarrow>
                  (\<lparr>status = 201, body = Message ''User registered successfully''\<rparr>, us'))))"

text \<open>
  \<^verbatim>\<open>POST /signup\<close> of the third copy (part_000 300-320): the conflict is a 409.  Its
  schema declares \<^verbatim>\<open>trim: true\<close> on \<^verbatim>\<open>username\<close>, a setter that Mongoose applies
  to the path of a new document and to the same path in a query filter; \<open>trim\<close> is
  \<^verbatim>\<open>String.prototype.trim\<close>.  bcrypt draws the salt itself here.
\<close>

definition post_signup_variant ::
  "(string \<Rightarrow> string \<Rightarrow> string) \<Rightarrow> (string \<Rightarrow> string) \<Rightarrow> user list \<Rightarrow> nat \<Rightarrow> string
     \<Rightarrow> string option \<Rightarrow> string option \<Rightarrow> unit response \<times> user list" where
  "post_signup_variant hash trim us newId salt usernameV passwordV =
     (if falsy usernameV \<or> falsy passwordV
      then (\<lparr>status = 400, body = Message ''All fields required''\<rparr>, us)
      else
        (case findOne us (trim (the usernameV)) of
           Some exists \<Rightarrow>
             (\<lparr>status = 409, body = Message ''Username already exists''\<rparr>, us)
         | None \<Rightarrow>
             (case insert_user \<lparr>uid = newId, username = trim (the usernameV),
                                password = hash (the passwordV) salt\<rparr> us of
                None \<Rightarrow> (\<lparr>status = 500, body = Message ''Server error''\<rparr>, us)
              | Some us' \<Rightarrow>
                  (\<lparr>status = 201, body = Message ''User registered successfully''\<rparr>, us'))))"



section \<open>Reading the specification's words on the code\<close>

text \<open>
  A field the body does not carry: the key is missing, or its value is \<^verbatim>\<open>null\<close> or the
  empty string.
\<close>

definition absent :: "jsval \<Rightarrow> bool" where
  "absent v = (v = Undefined \<or> v = Null \<or> v = Str [])"





section \<open>Sample data\<close>

text \<open>
  An auction that opened at 80, stands at 100 for \<^verbatim>\<open>ann\<close> and closes at instant 1000;
  collections that hold it under \<^verbatim>\<open>_id\<close> 7, open and closed; the same document in
  the leaner copy's schema.
\<close>

definition vase :: auctionItem where
  "vase = \<lparr>itemName = ''Vase'', description = ''A blue vase'', currentBid = Number 100,
           highestBidder = ''ann'', closingTime = 1000, isClosed = False,
           startingBid = Number 80, createdAt = 0\<rparr>"


definition shelf :: "auctionItem collection" where
  "shelf = \<lparr>docs = [7 \<mapsto> vase], saves = 0\<rparr>"

definition closedShelf :: "auctionItem collection" where
  "closedShelf = \<lparr>docs = [7 \<mapsto> vase\<lparr>isClosed := True\<rparr>], saves = 1\<rparr>"

definition noAuctions :: "auctionItem collection" where
  "noAuctions = \<lparr>docs = Map.empty, saves = 0\<rparr>"

definition variantVase :: variantAuctionItem where
  "variantVase = \<lparr>itemName = ''Vase'', description = ''A blue vase'',
                  currentBid = Number 100,
                  highestBidder = ''ann'', closingTime = 1000, isClosed = False\<rparr>"

definition cupboard :: "variantAuctionItem collection" where
  "cupboard = \<lparr>docs = [7 \<mapsto> variantVase], saves = 0\<rparr>"

text \<open>
  The casts at their narrowest: a value that already has the path's type is kept, every
  other value is refused.  Mongoose accepts more (numeric strings, date strings); on the
  bodies used below, whose fields have the schema's types or are plainly not numbers, it
  agrees with these.
\<close>

definition exactCasts :: casts where
  "exactCasts =
     \<lparr>castString = (\<lambda>v. case v of Str s \<Rightarrow> Some s | _ \<Rightarrow> None),
      castNumber = (\<lambda>v. case v of Num n \<Rightarrow> Some n | _ \<Rightarrow> None),
      castDate = (\<lambda>v. case v of Num n \<Rightarrow> (if of_int \<lfloor>n\<rfloor> = n then Some \<lfloor>n\<rfloor> else None)
                              | _ \<Rightarrow> None)\<rparr>"

text \<open>
  Stand-ins for bcrypt, for the trimming of blanks and for the token signer, to run the
  account routes on sample requests: the digest is the salt followed by the password.
\<close>

definition demoHash :: "string \<Rightarrow> string \<Rightarrow> string" where
  "demoHash p salt = salt @ p"


definition demoTrim :: "string \<Rightarrow> string" where
  "demoTrim s = rev (dropWhile (\<lambda>ch. ch = CHR '' '') (rev (dropWhile (\<lambda>ch. ch = CHR '' '') s)))"


definition alice :: user where
  "alice = \<lparr>uid = 1, username = ''alice'', password = demoHash ''secret'' ''salt''\<rparr>"

section \<open>Basic facts\<close>

lemma findById_save: "findById (save i d s) j = (if j = i then Some d else findById s j)"
  by (simp add: findById_def save_def)

lemma saves_save: "saves (save i d s) = saves s + 1"
  by (simp add: save_def)

lemma shelf_vase: "findById shelf 7 = Some vase"
  by (simp add: shelf_def findById_def)

lemma closedShelf_vase: "findById closedShelf 7 = Some (vase\<lparr>isClosed := True\<rparr>)"
  by (simp add: closedShelf_def findById_def)

lemma absent_not_truthy: "absent v \<Longrightarrow> \<not> truthy v"
  by (auto simp add: absent_def)

lemma js_le_numbers: "js_le c (Num a) (Number cb) = (a \<le> cb)"
  by (simp add: js_le_def)


section \<open>Bidding\<close>

text \<open>
  Claim C1 as it is stated fails on the code twice.  The specification's effective
  state is closed from \<^verbatim>\<open>now >= closingTime\<close> on, but the handler tests
  \<^verbatim>\<open>now > closingTime\<close>: at the closing instant of the sample auction a bid of 150 is
  judged on its amount and accepted.  And the branch after the two checks does not always
  accept: the bid \<^verbatim>\<open>abc\<close> is not below the current bid as JavaScript compares them,
  the schema refuses it, nothing is stored and the answer is 500.
\<close>

theorem bid_order_counterexample:
  "findById shelf 7 = Some vase \<and> isClosed vase = False \<and> closingTime vase = 1000
   \<and> post_bid exactCasts shelf 7 ''bob'' (Num 150) 1000 =
       (\<lparr>status = 200,
         body = MessageItemYourBid ''Bid successful''
                  (vase\<lparr>currentBid := Number 150, highestBidder := ''bob''\<rparr>) (Num 150)\<rparr>,
        save 7 (vase\<lparr>currentBid := Number 150, highestBidder := ''bob''\<rparr>) shelf)
   \<and> post_bid exactCasts shelf 7 ''bob'' (Str ''abc'') 500 =
       (\<lparr>status = 500, body = Message ''Internal Server Error''\<rparr>, shelf)"
  by (simp add: post_bid_def js_le_def findById_def shelf_def vase_def exactCasts_def)

text \<open>
  Claim C1, amended.  For every stored auction record, a bid runs its checks in this
  order.  First the closed state, which is the handler's own test, the stored flag or
  \<^verbatim>\<open>now > closingTime\<close>: a record marked closed is answered 400 with the current
  \<^verbatim>\<open>highestBidder\<close> as winner and nothing is written; a record not yet marked whose
  closing time has passed is answered 400 with the winner and is stored as closed; in
  both cases the bid plays no part.  Second, on an open record (\<^verbatim>\<open>now <= closingTime\<close>),
  a bid that JavaScript finds at or below \<^verbatim>\<open>currentBid\<close> is answered 400 with the
  current \<^verbatim>\<open>currentBid\<close> and nothing is written; for a JSON number against a stored
  number that is \<^verbatim>\<open>amount <= currentBid\<close>.  Otherwise the bid is cast as the schema
  casts it: a value the cast accepts becomes \<^verbatim>\<open>currentBid\<close>, the bidder becomes
  \<^verbatim>\<open>highestBidder\<close>, the record is stored and the answer is 200 with the updated
  record, and for a JSON number the stored value is the amount; a value the cast refuses
  is answered 500 and nothing is written.
\<close>

theorem post_bid_checks_in_order:
  assumes "findById s i = Some item"
  shows "(isClosed item \<longrightarrow>
            post_bid c s i bidder bid now =
              (\<lparr>status = 400, body = MessageWinner ''Auction is closed'' (highestBidder item)\<rparr>,
               s))
       \<and> (\<not> isClosed item \<and> closingTime item < now \<longrightarrow>
            post_bid c s i bidder bid now =
              (\<lparr>status = 400, body = MessageWinner ''Auction closed'' (highestBidder item)\<rparr>,
               save i (item\<lparr>isClosed := True\<rparr>) s))
       \<and> (\<not> isClosed item \<and> now \<le> closingTime item \<and> js_le c bid (currentBid item) \<longrightarrow>
            post_bid c s i bidder bid now =
              (\<lparr>status = 400,
                body = MessageCurrentBid ''Bid must be higher than current bid''
                         (currentBid item)\<rparr>, s))
       \<and> (\<not> isClosed item \<and> now \<le> closingTime item \<and> \<not> js_le c bid (currentBid item)
            \<and> castNumberPath c bid = Some v \<longrightarrow>
            post_bid c s i bidder bid now =
              (\<lparr>status = 200,
                body = MessageItemYourBid ''Bid successful''
                         (item\<lparr>currentBid := v, highestBidder := bidder\<rparr>) bid\<rparr>,
               save i (item\<lparr>currentBid := v, highestBidder := bidder\<rparr>) s)
          \<and> findById (snd (post_bid c s i bidder bid now)) i =
              Some (item\<lparr>currentBid := v, highestBidder := bidder\<rparr>))
       \<and> (\<not> isClosed item \<and> now \<le> closingTime item \<and> \<not> js_le c bid (currentBid item)
            \<and> castNumberPath c bid = None \<longrightarrow>
            post_bid c s i bidder bid now =
              (\<lparr>status = 500, body = Message ''Internal Server Error''\<rparr>, s))
       \<and> (\<not> isClosed item \<and> now \<le> closingTime item \<and> currentBid item = Number cb
            \<and> a \<le> cb \<longrightarrow>
            post_bid c s i bidder (Num a) now =
              (\<lparr>status = 400,
                body = MessageCurrentBid ''Bid must be higher than current bid'' (Number cb)\<rparr>,
               s))
       \<and> (\<not> isClosed item \<and> now \<le> closingTime item \<and> currentBid item = Number cb
            \<and> cb < a \<longrightarrow>
            post_bid c s i bidder (Num a) now =
              (\<lparr>status = 200,
                body = MessageItemYourBid ''Bid successful''
                         (item\<lparr>currentBid := Number a, highestBidder := bidder\<rparr>) (Num a)\<rparr>,
               save i (item\<lparr>currentBid := Number a, highestBidder := bidder\<rparr>) s)
          \<and> findById (snd (post_bid c s i bidder (Num a) now)) i =
              Some (item\<lparr>currentBid := Number a, highestBidder := bidder\<rparr>))"
  using assms by (simp add: post_bid_def findById_save js_le_numbers)

theorem post_bid_checks_in_order_witness:
  "post_bid exactCasts closedShelf 7 ''bob'' (Num 150) 500 =
     (\<lparr>status = 400, body = MessageWinner ''Auction is closed'' ''ann''\<rparr>, closedShelf)
   \<and> post_bid exactCasts shelf 7 ''bob'' (Num 150) 2000 =
     (\<lparr>status = 400, body = MessageWinner ''Auction closed'' ''ann''\<rparr>,
      save 7 (vase\<lparr>isClosed := True\<rparr>) shelf)
   \<and> post_bid exactCasts shelf 7 ''bob'' Null 500 =
     (\<lparr>status = 400,
       body = MessageCurrentBid ''Bid must be higher than current bid'' (Number 100)\<rparr>,
      shelf)
   \<and> post_bid exactCasts shelf 7 ''bob'' Undefined 500 =
     (\<lparr>status = 200,
       body = MessageItemYourBid ''Bid successful''
                (vase\<lparr>currentBid := NoValue, highestBidder := ''bob''\<rparr>) Undefined\<rparr>,
      save 7 (vase\<lparr>currentBid := NoValue, highestBidder := ''bob''\<rparr>) shelf)
   \<and> post_bid exactCasts shelf 7 ''bob'' (Str ''abc'') 500 =
     (\<lparr>status = 500, body = Message ''Internal Server Error''\<rparr>, shelf)
   \<and> post_bid exactCasts shelf 7 ''bob'' (Num 100) 500 =
     (\<lparr>status = 400,
       body = MessageCurrentBid ''Bid must be higher than current bid'' (Number 100)\<rparr>,
      shelf)
   \<and> post_bid exactCasts shelf 7 ''bob'' (Num 150) 500 =
     (\<lparr>status = 200,
       body = MessageItemYourBid ''Bid successful''
                (vase\<lparr>currentBid := Number 150, highestBidder := ''bob''\<rparr>) (Num 150)\<rparr>,
      save 7 (vase\<lparr>currentBid := Number 150, highestBidder := ''bob''\<rparr>) shelf)
   \<and> findById (snd (post_bid exactCasts shelf 7 ''bob'' (Num 150) 500)) 7 =
       Some (vase\<lparr>currentBid := Number 150, highestBidder := ''bob''\<rparr>)"
proof -
  have null_low: "js_le exactCasts Null (currentBid vase)"
    and missing_above: "\<not> js_le exactCasts Undefined (currentBid vase)"
    and abc_above: "\<not> js_le exactCasts (Str ''abc'') (currentBid vase)"
    and abc_refused: "castNumberPath exactCasts (Str ''abc'') = None"
    by (simp_all add: js_le_def vase_def exactCasts_def)
  show ?thesis
    using post_bid_checks_in_order [where c = exactCasts and bidder = "''bob''"
          and bid = "Num 150" and now = 500, OF closedShelf_vase]
      post_bid_checks_in_order [where c = exactCasts and bidder = "''bob''"
          and bid = "Num 150" and now = 2000, OF shelf_vase]
      post_bid_checks_in_order [where c = exactCasts and bidder = "''bob''"
          and bid = Null and now = 500, OF shelf_vase]
      post_bid_checks_in_order [where c = exactCasts and bidder = "''bob''"
          and bid = Undefined and now = 500 and v = NoValue, OF shelf_vase]
      post_bid_checks_in_order [where c = exactCasts and bidder = "''bob''"
          and bid = "Str ''abc''" and now = 500, OF shelf_vase]
      post_bid_checks_in_order [where c = exactCasts and bidder = "''bob''"
          and now = 500 and cb = 100 and a = 100, OF shelf_vase]
      post_bid_checks_in_order [where c = exactCasts and bidder = "''bob''"
          and now = 500 and cb = 100 and a = 150, OF shelf_vase]
      null_low missing_above abc_above abc_refused
    by (simp add: vase_def findById_save)
qed

section \<open>Lazy closing\<close>

text \<open>
  Claim C2 as it is stated includes the instant \<^verbatim>\<open>now == closingTime\<close>.  Both
  handlers test \<^verbatim>\<open>new Date() > closingTime\<close>: at that instant the sample auction is
  shown open, nothing is written, and a higher bid is accepted.
\<close>

theorem closing_boundary_counterexample:
  "findById shelf 7 = Some vase \<and> isClosed vase = False \<and> closingTime vase = 1000
   \<and> get_auction shelf 7 1000 = (\<lparr>status = 200, body = Document vase\<rparr>, shelf)
   \<and> post_bid exactCasts shelf 7 ''bob'' (Num 150) 1000 =
       (\<lparr>status = 200,
         body = MessageItemYourBid ''Bid successful''
                  (vase\<lparr>currentBid := Number 150, highestBidder := ''bob''\<rparr>) (Num 150)\<rparr>,
        save 7 (vase\<lparr>currentBid := Number 150, highestBidder := ''bob''\<rparr>) shelf)"
  by (simp add: get_auction_def post_bid_def js_le_def findById_def shelf_def vase_def)

text \<open>
  Claim C2, amended.  For every stored auction record whose stored state is open: a view
  or a bid at a time \<^verbatim>\<open>now > closingTime\<close> observes the closed state (the view shows
  the record with \<^verbatim>\<open>isClosed = true\<close>, the bid is answered 400 with the winner) and
  stores \<^verbatim>\<open>isClosed = true\<close>; at any time \<^verbatim>\<open>now <= closingTime\<close>, the instant
  \<^verbatim>\<open>now == closingTime\<close> included, the record is still treated as open: the view
  returns it as it is and writes nothing, and a bid, whatever it carries, is not answered
  as on a closed auction and leaves the stored record with \<^verbatim>\<open>isClosed = false\<close>.
\<close>

theorem lazy_close_past_closingTime:
  assumes "findById s i = Some item" and "\<not> isClosed item"
  shows "(closingTime item < now \<longrightarrow>
            get_auction s i now =
              (\<lparr>status = 200, body = Document (item\<lparr>isClosed := True\<rparr>)\<rparr>,
               save i (item\<lparr>isClosed := True\<rparr>) s)
          \<and> findById (snd (get_auction s i now)) i = Some (item\<lparr>isClosed := True\<rparr>)
          \<and> post_bid c s i bidder bid now =
              (\<lparr>status = 400, body = MessageWinner ''Auction closed'' (highestBidder item)\<rparr>,
               save i (item\<lparr>isClosed := True\<rparr>) s)
          \<and> findById (snd (post_bid c s i bidder bid now)) i =
              Some (item\<lparr>isClosed := True\<rparr>))
       \<and> (now \<le> closingTime item \<longrightarrow>
            get_auction s i now = (\<lparr>status = 200, body = Document item\<rparr>, s)
          \<and> (\<exists>item'. findById (snd (post_bid c s i bidder bid now)) i = Some item'
                \<and> \<not> isClosed item')
          \<and> (\<forall>m w. body (fst (post_bid c s i bidder bid now)) \<noteq> MessageWinner m w))"
  using assms
  by (auto simp add: get_auction_def post_bid_def findById_save split: option.splits)

theorem lazy_close_past_closingTime_witness:
  "(get_auction shelf 7 1001 =
      (\<lparr>status = 200, body = Document (vase\<lparr>isClosed := True\<rparr>)\<rparr>,
       save 7 (vase\<lparr>isClosed := True\<rparr>) shelf)
    \<and> findById (snd (get_auction shelf 7 1001)) 7 = Some (vase\<lparr>isClosed := True\<rparr>)
    \<and> post_bid exactCasts shelf 7 ''bob'' (Num 150) 1001 =
      (\<lparr>status = 400, body = MessageWinner ''Auction closed'' (highestBidder vase)\<rparr>,
       save 7 (vase\<lparr>isClosed := True\<rparr>) shelf)
    \<and> findById (snd (post_bid exactCasts shelf 7 ''bob'' (Num 150) 1001)) 7 =
      Some (vase\<lparr>isClosed := True\<rparr>))
   \<and> (get_auction shelf 7 1000 = (\<lparr>status = 200, body = Document vase\<rparr>, shelf)
    \<and> (\<exists>item'. findById (snd (post_bid exactCasts shelf 7 ''bob'' (Num 150) 1000)) 7 =
           Some item' \<and> \<not> isClosed item')
    \<and> (\<forall>m w. body (fst (post_bid exactCasts shelf 7 ''bob'' (Num 150) 1000)) \<noteq>
           MessageWinner m w))"
proof -
  have open_vase: "\<not> isClosed vase"
    and expired: "closingTime vase < 1001" and boundary: "1000 \<le> closingTime vase"
    by (simp_all add: vase_def)
  show ?thesis
    using lazy_close_past_closingTime [where c = exactCasts and bidder = "''bob''"
          and bid = "Num 150" and now = 1001, OF shelf_vase open_vase]
      lazy_close_past_closingTime [where c = exactCasts and bidder = "''bob''"
          and bid = "Num 150" and now = 1000, OF shelf_vase open_vase]
      expired boundary
    by blast
qed

section \<open>Viewing one auction\<close>

text \<open>
  Claim C3 as it is stated covers the view of every copy.  The leaner copy's view
  returns the stored document and writes nothing, whatever the clock says: the sample
  auction, open with closing time 1000, comes back open and the collection is as it was.
\<close>

theorem view_variant_counterexample:
  "findById cupboard 7 = Some variantVase
   \<and> isClosed variantVase = False \<and> closingTime variantVase = 1000
   \<and> get_auction_variant cupboard 7 =
       (\<lparr>status = 200, body = Document variantVase\<rparr>, cupboard)"
  by (simp add: get_auction_variant_def findById_def cupboard_def variantVase_def)

text \<open>
  Claim C3, amended.  In \<^verbatim>\<open>backend/server.js\<close>, for every stored auction record with
  \<^verbatim>\<open>isClosed = false\<close> and \<^verbatim>\<open>now\<close> past \<^verbatim>\<open>closingTime\<close>, the view itself
  writes \<^verbatim>\<open>isClosed = true\<close> to the collection (one write, to that record) and returns
  the updated record.  The view of the leaner copy never writes, and returns a stored
  record as it is stored.
\<close>

theorem view_persists_closing:
  assumes "findById s i = Some item" and "\<not> isClosed item" and "closingTime item < now"
  shows "get_auction s i now =
           (\<lparr>status = 200, body = Document (item\<lparr>isClosed := True\<rparr>)\<rparr>,
            save i (item\<lparr>isClosed := True\<rparr>) s)
       \<and> docs (snd (get_auction s i now)) = (docs s)(i \<mapsto> item\<lparr>isClosed := True\<rparr>)
       \<and> saves (snd (get_auction s i now)) = saves s + 1
       \<and> snd (get_auction_variant v j) = v
       \<and> (findById v j = Some stored \<longrightarrow>
            get_auction_variant v j = (\<lparr>status = 200, body = Document stored\<rparr>, v))"
  using assms
  by (simp add: get_auction_def get_auction_variant_def save_def split: option.split)

theorem view_persists_closing_witness:
  "get_auction shelf 7 2000 =
     (\<lparr>status = 200, body = Document (vase\<lparr>isClosed := True\<rparr>)\<rparr>,
      save 7 (vase\<lparr>isClosed := True\<rparr>) shelf)
   \<and> docs (snd (get_auction shelf 7 2000)) = (docs shelf)(7 \<mapsto> vase\<lparr>isClosed := True\<rparr>)
   \<and> saves (snd (get_auction shelf 7 2000)) = saves shelf + 1
   \<and> snd (get_auction_variant cupboard 7) = cupboard
   \<and> get_auction_variant cupboard 7 =
       (\<lparr>status = 200, body = Document variantVase\<rparr>, cupboard)"
proof -
  have open_vase: "\<not> isClosed vase" and expired: "closingTime vase < 2000"
    by (simp_all add: vase_def)
  have kept: "findById cupboard 7 = Some variantVase"
    by (simp add: cupboard_def findById_def)
  show ?thesis
    using view_persists_closing [OF shelf_vase open_vase expired,
        where v = cupboard and j = 7 and stored = variantVase] kept
    by blast
qed

section \<open>Ties\<close>

text \<open>
  Claim C4.  For every open auction record (not marked closed, closing time not passed) a
  bid whose amount equals \<^verbatim>\<open>currentBid\<close>, the number the record stands at, is
  answered 400 with the message that the bid must be higher, never 200, and nothing is
  written.
\<close>

theorem equal_bid_rejected:
  assumes "findById s i = Some item" and "\<not> isClosed item" and "now \<le> closingTime item"
    and "currentBid item = Number cb"
  shows "post_bid c s i bidder (Num cb) now =
           (\<lparr>status = 400,
             body = MessageCurrentBid ''Bid must be higher than current bid''
                      (currentBid item)\<rparr>, s)
       \<and> status (fst (post_bid c s i bidder (Num cb) now)) \<noteq> 200"
  using assms by (simp add: post_bid_def js_le_numbers)

theorem equal_bid_rejected_witness:
  "post_bid exactCasts shelf 7 ''bob'' (Num 100) 500 =
     (\<lparr>status = 400,
       body = MessageCurrentBid ''Bid must be higher than current bid'' (currentBid vase)\<rparr>,
      shelf)
   \<and> status (fst (post_bid exactCasts shelf 7 ''bob'' (Num 100) 500)) \<noteq> 200
   \<and> currentBid vase = Number 100"
proof -
  have open_vase: "\<not> isClosed vase" and running: "500 \<le> closingTime vase"
    and stands: "currentBid vase = Number 100"
    by (simp_all add: vase_def)
  from equal_bid_rejected [OF shelf_vase open_vase running stands,
      where c = exactCasts and bidder = "''bob''"] stands
  show ?thesis by simp
qed

section \<open>Invariants of a record\<close>



lemma post_auction_other:
  "findById s j = Some item \<Longrightarrow>
     findById (snd (post_auction c s newId now n d b t)) j = Some item"
  by (auto simp add: post_auction_def insert_doc_def findById_def save_def
      split: if_splits option.splits)





lemma step_closed_frozen:
  assumes "findById s j = Some item" and "isClosed item"
  shows "findById (step c s x) j = Some item"
proof (cases x)
  case (View i now)
  with assms show ?thesis
    by (auto simp add: get_auction_def findById_save split: option.splits)
next
  case (PlaceBid i bidder bid now)
  with assms show ?thesis
    by (auto simp add: post_bid_def findById_save split: option.splits)
next
  case (CreateAuction newId now n d b t)
  with assms show ?thesis
    by (simp add: post_auction_other)
qed

lemma run_closed_frozen:
  "findById s j = Some item \<Longrightarrow> isClosed item \<Longrightarrow> findById (run c s xs) j = Some item"
  unfolding run_def
  by (induction xs arbitrary: s) (simp_all add: step_closed_frozen)




text \<open>
  Claim C6.  \<^verbatim>\<open>isClosed\<close> is monotonic: for every auction record stored with
  \<^verbatim>\<open>isClosed = true\<close>, after any finite sequence of operations on the collection
  (views, bids with any body, creations) the record is stored closed; it is in fact the
  very record it was.  A bid on it is answered 400 with the winner and a view shows it as
  it is, neither writing anything: no bid is accepted on a closed record.  The remaining
  route, \<^verbatim>\<open>GET /auctions\<close>, only reads.
\<close>

theorem closed_is_terminal:
  assumes "findById s i = Some item" and "isClosed item"
  shows "(\<exists>item'. findById (run c s xs) i = Some item' \<and> isClosed item')
       \<and> findById (run c s xs) i = Some item
       \<and> post_bid c (run c s xs) i bidder bid now =
           (\<lparr>status = 400, body = MessageWinner ''Auction is closed'' (highestBidder item)\<rparr>,
            run c s xs)
       \<and> get_auction (run c s xs) i now = (\<lparr>status = 200, body = Document item\<rparr>, run c s xs)"
proof -
  have "findById (run c s xs) i = Some item"
    using assms by (rule run_closed_frozen)
  with assms(2) show ?thesis
    by (simp add: post_bid_def get_auction_def)
qed

theorem closed_is_terminal_witness:
  "(\<exists>item'. findById (run exactCasts closedShelf
                [PlaceBid 7 ''bob'' (Num 150) 500, PlaceBid 7 ''eve'' Undefined 600,
                 View 7 2000]) 7 = Some item' \<and> isClosed item')
   \<and> findById (run exactCasts closedShelf
        [PlaceBid 7 ''bob'' (Num 150) 500, PlaceBid 7 ''eve'' Undefined 600, View 7 2000]) 7 =
       Some (vase\<lparr>isClosed := True\<rparr>)
   \<and> post_bid exactCasts (run exactCasts closedShelf
        [PlaceBid 7 ''bob'' (Num 150) 500, PlaceBid 7 ''eve'' Undefined 600, View 7 2000]) 7
         ''cy'' (Num 500) 100 =
       (\<lparr>status = 400,
         body = MessageWinner ''Auction is closed'' (highestBidder (vase\<lparr>isClosed := True\<rparr>))\<rparr>,
        run exactCasts closedShelf
          [PlaceBid 7 ''bob'' (Num 150) 500, PlaceBid 7 ''eve'' Undefined 600, View 7 2000])
   \<and> get_auction (run exactCasts closedShelf
        [PlaceBid 7 ''bob'' (Num 150) 500, PlaceBid 7 ''eve'' Undefined 600, View 7 2000]) 7
         100 =
       (\<lparr>status = 200, body = Document (vase\<lparr>isClosed := True\<rparr>)\<rparr>,
        run exactCasts closedShelf
          [PlaceBid 7 ''bob'' (Num 150) 500, PlaceBid 7 ''eve'' Undefined 600, View 7 2000])"
proof -
  have closed: "isClosed (vase\<lparr>isClosed := True\<rparr>)"
    by simp
  show ?thesis
    using closed_is_terminal [OF closedShelf_vase closed, where c = exactCasts
        and xs = "[PlaceBid 7 ''bob'' (Num 150) 500, PlaceBid 7 ''eve'' Undefined 600,
                   View 7 2000]"
        and bidder = "''cy''" and bid = "Num 500" and now = 100] .
qed

section \<open>Writes of a bid\<close>

text \<open>
  Claim C7.  A bid on a stored record performs at most one write.  It writes only when it
  answers that the auction closed on a record not yet marked closed, or when it accepts
  the bid; a call that did not write leaves the whole collection as it was.  On the
  too-low answer, and on a record already marked closed, the collection is unchanged, so
  every field of the stored record, \<^verbatim>\<open>currentBid\<close> and \<^verbatim>\<open>highestBidder\<close> among
  them, is what it was.
\<close>

theorem post_bid_writes:
  assumes "findById s i = Some item"
  shows "saves (snd (post_bid c s i bidder bid now)) \<le> saves s + 1
       \<and> (saves (snd (post_bid c s i bidder bid now)) = saves s + 1 \<longrightarrow>
            (\<not> isClosed item \<and> closingTime item < now
               \<and> fst (post_bid c s i bidder bid now) =
                   \<lparr>status = 400, body = MessageWinner ''Auction closed'' (highestBidder item)\<rparr>)
            \<or> (\<exists>v. castNumberPath c bid = Some v
                 \<and> fst (post_bid c s i bidder bid now) =
                     \<lparr>status = 200,
                      body = MessageItemYourBid ''Bid successful''
                               (item\<lparr>currentBid := v, highestBidder := bidder\<rparr>) bid\<rparr>))
       \<and> (saves (snd (post_bid c s i bidder bid now)) = saves s \<longrightarrow>
            snd (post_bid c s i bidder bid now) = s)
       \<and> (fst (post_bid c s i bidder bid now) =
            \<lparr>status = 400,
             body = MessageCurrentBid ''Bid must be higher than current bid'' (currentBid item)\<rparr>
            \<longrightarrow> snd (post_bid c s i bidder bid now) = s)
       \<and> (isClosed item \<longrightarrow>
            post_bid c s i bidder bid now =
              (\<lparr>status = 400, body = MessageWinner ''Auction is closed'' (highestBidder item)\<rparr>,
               s))"
  using assms by (auto simp add: post_bid_def saves_save split: option.splits)

theorem post_bid_writes_witness:
  "saves (snd (post_bid exactCasts shelf 7 ''bob'' (Num 150) 500)) \<le> saves shelf + 1
   \<and> (\<exists>v. castNumberPath exactCasts (Num 150) = Some v
        \<and> fst (post_bid exactCasts shelf 7 ''bob'' (Num 150) 500) =
            \<lparr>status = 200,
             body = MessageItemYourBid ''Bid successful''
                      (vase\<lparr>currentBid := v, highestBidder := ''bob''\<rparr>) (Num 150)\<rparr>)
   \<and> snd (post_bid exactCasts shelf 7 ''bob'' (Str ''abc'') 500) = shelf
   \<and> snd (post_bid exactCasts shelf 7 ''bob'' (Num 100) 500) = shelf
   \<and> post_bid exactCasts closedShelf 7 ''bob'' (Num 150) 500 =
       (\<lparr>status = 400,
         body = MessageWinner ''Auction is closed'' (highestBidder (vase\<lparr>isClosed := True\<rparr>))\<rparr>,
        closedShelf)"
proof -
  note accepted = post_bid_writes [OF shelf_vase, where c = exactCasts
      and bidder = "''bob''" and bid = "Num 150" and now = 500]
  note refused = post_bid_writes [OF shelf_vase, where c = exactCasts
      and bidder = "''bob''" and bid = "Str ''abc''" and now = 500]
  note low = post_bid_writes [OF shelf_vase, where c = exactCasts
      and bidder = "''bob''" and bid = "Num 100" and now = 500]
  note shut = post_bid_writes [OF closedShelf_vase, where c = exactCasts
      and bidder = "''bob''" and bid = "Num 150" and now = 500]
  have written: "saves (snd (post_bid exactCasts shelf 7 ''bob'' (Num 150) 500)) =
      saves shelf + 1"
    by (simp add: post_bid_def js_le_def shelf_def vase_def findById_def save_def)
  have not_written: "saves (snd (post_bid exactCasts shelf 7 ''bob'' (Str ''abc'') 500)) =
      saves shelf"
    by (simp add: post_bid_def js_le_def shelf_def vase_def findById_def exactCasts_def)
  have running: "\<not> closingTime vase < 500"
    by (simp add: vase_def)
  have too_low: "fst (post_bid exactCasts shelf 7 ''bob'' (Num 100) 500) =
      \<lparr>status = 400,
       body = MessageCurrentBid ''Bid must be higher than current bid'' (currentBid vase)\<rparr>"
    by (simp add: post_bid_def js_le_def shelf_def vase_def findById_def)
  have closed: "isClosed (vase\<lparr>isClosed := True\<rparr>)"
    by simp
  have one: "saves (snd (post_bid exactCasts shelf 7 ''bob'' (Num 150) 500)) \<le> saves shelf + 1"
    using accepted by (rule conjunct1)
  have two: "\<exists>v. castNumberPath exactCasts (Num 150) = Some v
        \<and> fst (post_bid exactCasts shelf 7 ''bob'' (Num 150) 500) =
            \<lparr>status = 200,
             body = MessageItemYourBid ''Bid successful''
                      (vase\<lparr>currentBid := v, highestBidder := ''bob''\<rparr>) (Num 150)\<rparr>"
    using accepted [THEN conjunct2, THEN conjunct1, THEN mp, OF written] running by blast
  have three: "snd (post_bid exactCasts shelf 7 ''bob'' (Str ''abc'') 500) = shelf"
    using refused [THEN conjunct2, THEN conjunct2, THEN conjunct1] not_written by (rule mp)
  have four: "snd (post_bid exactCasts shelf 7 ''bob'' (Num 100) 500) = shelf"
    using low [THEN conjunct2, THEN conjunct2, THEN conjunct2, THEN conjunct1] too_low
    by (rule mp)
  have five: "post_bid exactCasts closedShelf 7 ''bob'' (Num 150) 500 =
       (\<lparr>status = 400,
         body = MessageWinner ''Auction is closed'' (highestBidder (vase\<lparr>isClosed := True\<rparr>))\<rparr>,
        closedShelf)"
    using shut [THEN conjunct2, THEN conjunct2, THEN conjunct2, THEN conjunct2] closed
    by (rule mp)
  show ?thesis
    by (intro conjI one two three four five)
qed

section \<open>Creating an auction\<close>

text \<open>
  Claim C8 as it is stated fails on \<^verbatim>\<open>backend/server.js\<close> twice.  A starting bid
  that is not a number (the string \<^verbatim>\<open>abc\<close>) passes the handler's check, which looks
  at truthiness only; the schema refuses it at \<^verbatim>\<open>save()\<close> and the answer is 500, not
  the 400 of an invalid input.  And a starting bid of 0, present and numeric, is answered
  400, because \<^verbatim>\<open>!startingBid\<close> holds of 0.
\<close>

theorem post_auction_validation_counterexample:
  "post_auction exactCasts noAuctions 7 0
       (Str ''Vase'') (Str ''A blue vase'') (Str ''abc'') (Num 1000) =
     (\<lparr>status = 500, body = Message ''Internal Server Error''\<rparr>, noAuctions)
   \<and> post_auction exactCasts noAuctions 7 0
       (Str ''Vase'') (Str ''A blue vase'') (Num 0) (Num 1000) =
     (\<lparr>status = 400, body = Message ''All fields are required''\<rparr>, noAuctions)"
  by (simp add: post_auction_def new_AuctionItem_def exactCasts_def)

text \<open>
  Claim C8, amended, handler by handler.

  \<^verbatim>\<open>POST /auction\<close> of \<^verbatim>\<open>backend/server.js\<close> answers 400 (invalid input) and writes
  nothing whenever one of the four fields is absent (missing, \<^verbatim>\<open>null\<close> or the empty
  string).  It never answers 400 when all four fields are truthy, so a starting bid that
  is present but not numeric is not an invalid input to the handler: it is left to the
  schema's cast, and a string that the cast refuses is answered 500 with nothing
  written.  For truthy fields with a numeric starting bid other than 0, fields that
  the schema's casts accept, and a fresh \<^verbatim>\<open>_id\<close>, it stores and returns a new record
  with \<^verbatim>\<open>currentBid = startingBid\<close>, \<^verbatim>\<open>isClosed = false\<close> and an empty
  \<^verbatim>\<open>highestBidder\<close>.

  \<^verbatim>\<open>POST /auction\<close> of the leaner copy (part_000 128-148) answers 400 and writes
  nothing whenever the item name, the description or the closing time is absent, or the
  starting bid is missing or \<^verbatim>\<open>null\<close>.  It never answers 400 when those three are
  truthy and the starting bid is neither missing nor \<^verbatim>\<open>null\<close>; an empty-string
  starting bid gets past the check, fails the schema's \<^verbatim>\<open>required\<close> at
  \<^verbatim>\<open>save()\<close> and is answered 500, as is a string that the cast refuses.  For
  truthy fields that the casts turn into
  non-empty strings and a date, a numeric starting bid, 0 included, and a fresh
  \<^verbatim>\<open>_id\<close>, it stores and returns a new record with \<^verbatim>\<open>currentBid\<close> the starting
  bid, \<^verbatim>\<open>isClosed = false\<close> and an empty \<^verbatim>\<open>highestBidder\<close>.
\<close>

theorem post_auction_validation:
  "(absent nameV \<or> absent descV \<or> absent startingBidV \<or> absent closeV \<longrightarrow>
      post_auction c s newId now nameV descV startingBidV closeV =
        (\<lparr>status = 400, body = Message ''All fields are required''\<rparr>, s))
   \<and> (truthy nameV \<and> truthy descV \<and> truthy startingBidV \<and> truthy closeV \<longrightarrow>
      status (fst (post_auction c s newId now nameV descV startingBidV closeV)) \<noteq> 400)
   \<and> (truthy nameV \<and> truthy descV \<and> truthy closeV \<and> n \<noteq> 0
        \<and> castString c nameV = Some name \<and> castString c descV = Some desc
        \<and> castDate c closeV = Some t \<and> docs s newId = None \<longrightarrow>
      post_auction c s newId now nameV descV (Num n) closeV =
        (\<lparr>status = 201,
          body = MessageItem ''Auction item created''
                   \<lparr>itemName = name, description = desc, currentBid = Number n,
                    highestBidder = [], closingTime = t, isClosed = False,
                    startingBid = Number n, createdAt = now\<rparr>\<rparr>,
         save newId
           \<lparr>itemName = name, description = desc, currentBid = Number n,
            highestBidder = [], closingTime = t, isClosed = False,
            startingBid = Number n, createdAt = now\<rparr> s))
   \<and> (absent nameV \<or> absent descV \<or> nullish startingBidV \<or> absent closeV \<longrightarrow>
      post_auction_variant c v newId nameV descV startingBidV closeV =
        (\<lparr>status = 400, body = Message ''All fields required''\<rparr>, v))
   \<and> (truthy nameV \<and> truthy descV \<and> \<not> nullish startingBidV \<and> truthy closeV \<longrightarrow>
      status (fst (post_auction_variant c v newId nameV descV startingBidV closeV)) \<noteq> 400)
   \<and> (truthy nameV \<and> truthy descV \<and> truthy closeV \<longrightarrow>
      post_auction_variant c v newId nameV descV (Str []) closeV =
        (\<lparr>status = 500, body = Message ''Server error''\<rparr>, v))
   \<and> (truthy nameV \<and> truthy descV \<and> truthy closeV
        \<and> castString c nameV = Some name \<and> castString c descV = Some desc
        \<and> name \<noteq> [] \<and> desc \<noteq> []
        \<and> castDate c closeV = Some t \<and> docs v newId = None \<longrightarrow>
      post_auction_variant c v newId nameV descV (Num n) closeV =
        (\<lparr>status = 201,
          body = MessageAuction ''Auction created''
                   \<lparr>itemName = name, description = desc, currentBid = Number n,
                    highestBidder = [], closingTime = t, isClosed = False\<rparr>\<rparr>,
         save newId
           \<lparr>itemName = name, description = desc, currentBid = Number n,
            highestBidder = [], closingTime = t, isClosed = False\<rparr> v))
   \<and> (truthy nameV \<and> truthy descV \<and> truthy closeV \<and> word \<noteq> []
        \<and> castNumber c (Str word) = None \<longrightarrow>
      post_auction c s newId now nameV descV (Str word) closeV =
        (\<lparr>status = 500, body = Message ''Internal Server Error''\<rparr>, s)
      \<and> post_auction_variant c v newId nameV descV (Str word) closeV =
        (\<lparr>status = 500, body = Message ''Server error''\<rparr>, v))"
proof (intro conjI impI)
  assume "absent nameV \<or> absent descV \<or> absent startingBidV \<or> absent closeV"
  then have "\<not> truthy nameV \<or> \<not> truthy descV \<or> \<not> truthy startingBidV \<or> \<not> truthy closeV"
    using absent_not_truthy by blast
  then show "post_auction c s newId now nameV descV startingBidV closeV =
      (\<lparr>status = 400, body = Message ''All fields are required''\<rparr>, s)"
    by (auto simp add: post_auction_def)
next
  assume "truthy nameV \<and> truthy descV \<and> truthy startingBidV \<and> truthy closeV"
  then show "status (fst (post_auction c s newId now nameV descV startingBidV closeV)) \<noteq> 400"
    by (simp add: post_auction_def split: option.split)
next
  assume "truthy nameV \<and> truthy descV \<and> truthy closeV \<and> n \<noteq> 0
        \<and> castString c nameV = Some name \<and> castString c descV = Some desc
        \<and> castDate c closeV = Some t \<and> docs s newId = None"
  then show "post_auction c s newId now nameV descV (Num n) closeV =
        (\<lparr>status = 201,
          body = MessageItem ''Auction item created''
                   \<lparr>itemName = name, description = desc, currentBid = Number n,
                    highestBidder = [], closingTime = t, isClosed = False,
                    startingBid = Number n, createdAt = now\<rparr>\<rparr>,
         save newId
           \<lparr>itemName = name, description = desc, currentBid = Number n,
            highestBidder = [], closingTime = t, isClosed = False,
            startingBid = Number n, createdAt = now\<rparr> s)"
    by (simp add: post_auction_def new_AuctionItem_def insert_doc_def)
next
  assume "absent nameV \<or> absent descV \<or> nullish startingBidV \<or> absent closeV"
  then have "\<not> truthy nameV \<or> \<not> truthy descV \<or> nullish startingBidV \<or> \<not> truthy closeV"
    using absent_not_truthy by blast
  then show "post_auction_variant c v newId nameV descV startingBidV closeV =
      (\<lparr>status = 400, body = Message ''All fields required''\<rparr>, v)"
    by (auto simp add: post_auction_variant_def)
next
  assume "truthy nameV \<and> truthy descV \<and> \<not> nullish startingBidV \<and> truthy closeV"
  then show
    "status (fst (post_auction_variant c v newId nameV descV startingBidV closeV)) \<noteq> 400"
    by (simp add: post_auction_variant_def split: option.split)
next
  assume "truthy nameV \<and> truthy descV \<and> truthy closeV"
  then show "post_auction_variant c v newId nameV descV (Str []) closeV =
      (\<lparr>status = 500, body = Message ''Server error''\<rparr>, v)"
    by (simp add: post_auction_variant_def new_AuctionItem_variant_def split: option.split)
next
  assume "truthy nameV \<and> truthy descV \<and> truthy closeV
        \<and> castString c nameV = Some name \<and> castString c descV = Some desc
        \<and> name \<noteq> [] \<and> desc \<noteq> []
        \<and> castDate c closeV = Some t \<and> docs v newId = None"
  then show "post_auction_variant c v newId nameV descV (Num n) closeV =
        (\<lparr>status = 201,
          body = MessageAuction ''Auction created''
                   \<lparr>itemName = name, description = desc, currentBid = Number n,
                    highestBidder = [], closingTime = t, isClosed = False\<rparr>\<rparr>,
         save newId
           \<lparr>itemName = name, description = desc, currentBid = Number n,
            highestBidder = [], closingTime = t, isClosed = False\<rparr> v)"
    by (simp add: post_auction_variant_def new_AuctionItem_variant_def insert_doc_def)
next
  assume refused: "truthy nameV \<and> truthy descV \<and> truthy closeV \<and> word \<noteq> []
        \<and> castNumber c (Str word) = None"
  then show "post_auction c s newId now nameV descV (Str word) closeV =
        (\<lparr>status = 500, body = Message ''Internal Server Error''\<rparr>, s)"
    by (simp add: post_auction_def new_AuctionItem_def split: option.split)
  from refused show "post_auction_variant c v newId nameV descV (Str word) closeV =
        (\<lparr>status = 500, body = Message ''Server error''\<rparr>, v)"
    by (simp add: post_auction_variant_def new_AuctionItem_variant_def split: option.split)
qed

theorem post_auction_validation_witness:
  "post_auction exactCasts noAuctions 7 0 (Str ''Vase'') Undefined (Num 80) (Num 1000) =
     (\<lparr>status = 400, body = Message ''All fields are required''\<rparr>, noAuctions)
   \<and> status (fst (post_auction exactCasts noAuctions 7 0
                  (Str ''Vase'') (Str ''A blue vase'') (Str ''abc'') (Num 1000))) \<noteq> 400
   \<and> post_auction exactCasts noAuctions 7 0
       (Str ''Vase'') (Str ''A blue vase'') (Num 80) (Num 1000) =
     (\<lparr>status = 201,
       body = MessageItem ''Auction item created''
                \<lparr>itemName = ''Vase'', description = ''A blue vase'', currentBid = Number 80,
                 highestBidder = [], closingTime = 1000, isClosed = False,
                 startingBid = Number 80, createdAt = 0\<rparr>\<rparr>,
      save 7
        \<lparr>itemName = ''Vase'', description = ''A blue vase'', currentBid = Number 80,
         highestBidder = [], closingTime = 1000, isClosed = False,
         startingBid = Number 80, createdAt = 0\<rparr> noAuctions)
   \<and> post_auction_variant exactCasts cupboard 8
       (Str ''Vase'') (Str ''A blue vase'') Null (Num 1000) =
     (\<lparr>status = 400, body = Message ''All fields required''\<rparr>, cupboard)
   \<and> status (fst (post_auction_variant exactCasts cupboard 8
                  (Str ''Vase'') (Str ''A blue vase'') (Str ''abc'') (Num 1000))) \<noteq> 400
   \<and> post_auction_variant exactCasts cupboard 8
       (Str ''Vase'') (Str ''A blue vase'') (Str []) (Num 1000) =
     (\<lparr>status = 500, body = Message ''Server error''\<rparr>, cupboard)
   \<and> post_auction_variant exactCasts cupboard 8
       (Str ''Vase'') (Str ''A blue vase'') (Num 0) (Num 1000) =
     (\<lparr>status = 201,
       body = MessageAuction ''Auction created''
                \<lparr>itemName = ''Vase'', description = ''A blue vase'', currentBid = Number 0,
                 highestBidder = [], closingTime = 1000, isClosed = False\<rparr>\<rparr>,
      save 8
        \<lparr>itemName = ''Vase'', description = ''A blue vase'', currentBid = Number 0,
         highestBidder = [], closingTime = 1000, isClosed = False\<rparr> cupboard)
   \<and> post_auction exactCasts noAuctions 7 0
       (Str ''Vase'') (Str ''A blue vase'') (Str ''abc'') (Num 1000) =
     (\<lparr>status = 500, body = Message ''Internal Server Error''\<rparr>, noAuctions)
   \<and> post_auction_variant exactCasts cupboard 8
       (Str ''Vase'') (Str ''A blue vase'') (Str ''abc'') (Num 1000) =
     (\<lparr>status = 500, body = Message ''Server error''\<rparr>, cupboard)"
proof -
  note missing = post_auction_validation [where c = exactCasts and s = noAuctions
      and newId = 7 and now = 0 and nameV = "Str ''Vase''" and descV = Undefined
      and startingBidV = "Num 80" and closeV = "Num 1000"]
  note given = post_auction_validation [where c = exactCasts and s = noAuctions
      and newId = 7 and now = 0 and nameV = "Str ''Vase''" and descV = "Str ''A blue vase''"
      and startingBidV = "Str ''abc''" and closeV = "Num 1000" and n = 80
      and name = "''Vase''" and desc = "''A blue vase''" and t = 1000]
  note null_bid = post_auction_validation [where c = exactCasts and v = cupboard
      and newId = 8 and nameV = "Str ''Vase''" and descV = "Str ''A blue vase''"
      and startingBidV = Null and closeV = "Num 1000"]
  note zero = post_auction_validation [where c = exactCasts and v = cupboard
      and newId = 8 and nameV = "Str ''Vase''" and descV = "Str ''A blue vase''"
      and startingBidV = "Str ''abc''" and closeV = "Num 1000" and n = 0
      and name = "''Vase''" and desc = "''A blue vase''" and t = 1000]
  note refused = post_auction_validation [where c = exactCasts and s = noAuctions
      and v = cupboard and newId = 7 and now = 0 and nameV = "Str ''Vase''"
      and descV = "Str ''A blue vase''" and closeV = "Num 1000" and word = "''abc''"]
  note refused_variant = post_auction_validation [where c = exactCasts and s = noAuctions
      and v = cupboard and newId = 8 and now = 0 and nameV = "Str ''Vase''"
      and descV = "Str ''A blue vase''" and closeV = "Num 1000" and word = "''abc''"]
  have one: "post_auction exactCasts noAuctions 7 0
      (Str ''Vase'') Undefined (Num 80) (Num 1000) =
      (\<lparr>status = 400, body = Message ''All fields are required''\<rparr>, noAuctions)"
    using missing [THEN conjunct1] by (simp add: absent_def)
  have two: "status (fst (post_auction exactCasts noAuctions 7 0
      (Str ''Vase'') (Str ''A blue vase'') (Str ''abc'') (Num 1000))) \<noteq> 400"
    using given [THEN conjunct2, THEN conjunct1] by simp
  have three: "post_auction exactCasts noAuctions 7 0
       (Str ''Vase'') (Str ''A blue vase'') (Num 80) (Num 1000) =
     (\<lparr>status = 201,
       body = MessageItem ''Auction item created''
                \<lparr>itemName = ''Vase'', description = ''A blue vase'', currentBid = Number 80,
                 highestBidder = [], closingTime = 1000, isClosed = False,
                 startingBid = Number 80, createdAt = 0\<rparr>\<rparr>,
      save 7
        \<lparr>itemName = ''Vase'', description = ''A blue vase'', currentBid = Number 80,
         highestBidder = [], closingTime = 1000, isClosed = False,
         startingBid = Number 80, createdAt = 0\<rparr> noAuctions)"
    using given [THEN conjunct2, THEN conjunct2, THEN conjunct1]
    by (simp add: exactCasts_def noAuctions_def)
  have four: "post_auction_variant exactCasts cupboard 8
       (Str ''Vase'') (Str ''A blue vase'') Null (Num 1000) =
     (\<lparr>status = 400, body = Message ''All fields required''\<rparr>, cupboard)"
    using null_bid [THEN conjunct2, THEN conjunct2, THEN conjunct2, THEN conjunct1] by simp
  have five: "status (fst (post_auction_variant exactCasts cupboard 8
      (Str ''Vase'') (Str ''A blue vase'') (Str ''abc'') (Num 1000))) \<noteq> 400"
    using zero [THEN conjunct2, THEN conjunct2, THEN conjunct2, THEN conjunct2,
        THEN conjunct1]
    by simp
  have six: "post_auction_variant exactCasts cupboard 8
       (Str ''Vase'') (Str ''A blue vase'') (Str []) (Num 1000) =
     (\<lparr>status = 500, body = Message ''Server error''\<rparr>, cupboard)"
    using zero [THEN conjunct2, THEN conjunct2, THEN conjunct2, THEN conjunct2,
        THEN conjunct2, THEN conjunct1]
    by simp
  have seven: "post_auction_variant exactCasts cupboard 8
       (Str ''Vase'') (Str ''A blue vase'') (Num 0) (Num 1000) =
     (\<lparr>status = 201,
       body = MessageAuction ''Auction created''
                \<lparr>itemName = ''Vase'', description = ''A blue vase'', currentBid = Number 0,
                 highestBidder = [], closingTime = 1000, isClosed = False\<rparr>\<rparr>,
      save 8
        \<lparr>itemName = ''Vase'', description = ''A blue vase'', currentBid = Number 0,
         highestBidder = [], closingTime = 1000, isClosed = False\<rparr> cupboard)"
    using zero [THEN conjunct2, THEN conjunct2, THEN conjunct2, THEN conjunct2,
        THEN conjunct2, THEN conjunct2, THEN conjunct1]
    by (simp add: exactCasts_def cupboard_def)
  have eight: "post_auction exactCasts noAuctions 7 0
       (Str ''Vase'') (Str ''A blue vase'') (Str ''abc'') (Num 1000) =
     (\<lparr>status = 500, body = Message ''Internal Server Error''\<rparr>, noAuctions)"
    using refused [THEN conjunct2, THEN conjunct2, THEN conjunct2, THEN conjunct2,
        THEN conjunct2, THEN conjunct2, THEN conjunct2]
    by (simp add: exactCasts_def)
  have nine: "post_auction_variant exactCasts cupboard 8
       (Str ''Vase'') (Str ''A blue vase'') (Str ''abc'') (Num 1000) =
     (\<lparr>status = 500, body = Message ''Server error''\<rparr>, cupboard)"
    using refused_variant [THEN conjunct2, THEN conjunct2, THEN conjunct2, THEN conjunct2,
        THEN conjunct2, THEN conjunct2, THEN conjunct2]
    by (simp add: exactCasts_def)
  show ?thesis
    by (intro conjI one two three four five six seven eight nine)
qed

section \<open>Accounts\<close>

text \<open>
  Claim C9 as it is stated covers every signup request that names a stored user.  The
  handler checks that both fields are there before it looks the name up: a request for
  the stored name \<^verbatim>\<open>alice\<close> that carries no password is answered with the
  missing-fields message, not with the conflict.
\<close>

theorem signup_existing_username_counterexample:
  "findOne [alice] ''alice'' = Some alice
   \<and> post_signup demoHash [alice] 2 ''salt'' (Some ''alice'') None =
       (\<lparr>status = 400, body = Message ''Username and password required''\<rparr>, [alice])"
  by (simp add: post_signup_def findOne_def alice_def)

text \<open>
  Claim C9, amended.  For every signup request whose non-empty username already names a
  stored user: when the request carries a non-empty password the answer is the conflict
  (400 in \<^verbatim>\<open>backend/server.js\<close>, 409 in the third copy, the username already exists);
  and whatever the password field is, the users collection is left as it was, so that no
  second record with that name is created.  The lookup comes before the creation.  In
  the third copy the name is the one the schema's trimming leaves alone, as every name
  stored through that copy is.
\<close>

theorem signup_existing_username:
  assumes "findOne us u = Some x" and "u \<noteq> []"
  shows "(p \<noteq> [] \<longrightarrow>
            post_signup hash us newId salt (Some u) (Some p) =
              (\<lparr>status = 400, body = Message ''Username already exists''\<rparr>, us))
       \<and> snd (post_signup hash us newId salt (Some u) passwordV) = us
       \<and> (p \<noteq> [] \<and> trim u = u \<longrightarrow>
            post_signup_variant hash trim us newId salt (Some u) (Some p) =
              (\<lparr>status = 409, body = Message ''Username already exists''\<rparr>, us))
       \<and> (trim u = u \<longrightarrow>
            snd (post_signup_variant hash trim us newId salt (Some u) passwordV) = us)"
  using assms by (simp add: post_signup_def post_signup_variant_def)

theorem signup_existing_username_witness:
  "post_signup demoHash [alice] 2 ''salt'' (Some ''alice'') (Some ''pw'') =
     (\<lparr>status = 400, body = Message ''Username already exists''\<rparr>, [alice])
   \<and> snd (post_signup demoHash [alice] 2 ''salt'' (Some ''alice'') None) = [alice]
   \<and> post_signup_variant demoHash demoTrim [alice] 2 ''salt'' (Some ''alice'') (Some ''pw'') =
     (\<lparr>status = 409, body = Message ''Username already exists''\<rparr>, [alice])
   \<and> snd (post_signup_variant demoHash demoTrim [alice] 2 ''salt'' (Some ''alice'') None) =
     [alice]"
proof -
  have stored: "findOne [alice] ''alice'' = Some alice"
    by (simp add: findOne_def alice_def)
  have named: "''alice'' \<noteq> []" and given: "''pw'' \<noteq> []"
    by simp_all
  have trimmed: "demoTrim ''alice'' = ''alice''"
    by (simp add: demoTrim_def)
  show ?thesis
    using signup_existing_username [OF stored named,
        of "''pw''" demoHash 2 "''salt''" None demoTrim] given trimmed
    by blast
qed




end
